theory Spec2Isabelle
  imports Complex_Main "HOL-Library.Word"
begin

unbundle bit_operations_syntax

section \<open>Business objects (dnsprobe.h)\<close>

text \<open>
  \<^verbatim>\<open>typedef unsigned long Time\<close> and \<^verbatim>\<open>size_t\<close> are 64-bit unsigned words.
  In the records of the model a \<^verbatim>\<open>double\<close> field holds a real number, and the
  arithmetic on such fields is exact. The binary64 arithmetic of the statistics, with its
  rounding, infinities and NaN, is modelled on its own further down (\<open>update64\<close>).
\<close>

type_synonym Time = "64 word"
type_synonym size_t = "64 word"

datatype EventType = EV_SEND_REQUEST | EV_RECV_DATA | EV_TIMEOUT | EV_ERROR

record Event =
  time :: Time
  target :: string
  event :: EventType
  duration :: real

text \<open>
  The standard library's random engine and the two \<^verbatim>\<open>uniform_int_distribution\<close>
  objects are implementation-defined; they enter the model as parameters: how an engine
  is seeded and how one draw of each distribution advances it.
\<close>

record 'g stdlib =
  seed :: "8 word \<Rightarrow> 'g"
  random_length :: "'g \<Rightarrow> int \<times> 'g"
  random_char :: "'g \<Rightarrow> int \<times> 'g"

text \<open>\<^verbatim>\<open>class Domain\<close>: \<^verbatim>\<open>std::queue<Event>\<close> is a list, pushed at the back, popped at the front.\<close>

record 'g Domain =
  rank :: size_t
  name :: string
  query_time_avg :: real
  query_time_stddev :: real
  query_count :: size_t
  time_first :: Time
  time_last :: Time
  events :: "Event list"
  PRNG :: 'g

text \<open>
  \<^verbatim>\<open>for (;*p; hash ^= *p++);\<close> over \<^verbatim>\<open>_name.c_str()\<close>: the loop stops at the first
  zero byte, and \<^verbatim>\<open>hash\<close> is an \<^verbatim>\<open>unsigned char\<close>.
\<close>

fun name_hash :: "string \<Rightarrow> 8 word \<Rightarrow> 8 word" where
  "name_hash [] hash = hash"
| "name_hash (p # ps) hash =
     (if of_char p = (0::nat) then hash else name_hash ps (hash XOR word_of_nat (of_char p)))"

text \<open>
  The conversion of a \<^verbatim>\<open>double\<close> to \<^verbatim>\<open>size_t\<close> or \<^verbatim>\<open>Time\<close> truncates toward
  zero; where the truncated value is outside the range of the target type C++ leaves
  the result undefined.
\<close>

definition double_to_ulong :: "real \<Rightarrow> 64 word" where
  "double_to_ulong x = word_of_int (if 0 \<le> x then \<lfloor>x\<rfloor> else \<lceil>x\<rceil>)"

text \<open>
  The name-taking constructor. Its debug log line does not touch the object and is left
  out. \<^verbatim>\<open>Domain(name)\<close> is \<open>Domain_ctor L name 0 0 0 0 0 0\<close>, by the default arguments.
\<close>

definition Domain_ctor ::
  "'g stdlib \<Rightarrow> string \<Rightarrow> size_t \<Rightarrow> real \<Rightarrow> real \<Rightarrow> real \<Rightarrow> real \<Rightarrow> real \<Rightarrow> 'g Domain" where
  "Domain_ctor L nm rk avg stddev cnt tfirst tlast =
     \<lparr>rank = rk, name = nm, query_time_avg = avg, query_time_stddev = stddev,
      query_count = double_to_ulong cnt, time_first = double_to_ulong tfirst,
      time_last = double_to_ulong tlast, events = [],
      PRNG = seed L (name_hash nm 0)\<rparr>"

text \<open>
  \<^verbatim>\<open>Domain::update\<close>. The count is converted to \<^verbatim>\<open>double\<close> where it multiplies or
  divides one. There is no clamp before \<^verbatim>\<open>sqrt\<close> in the code. The arithmetic of the
  statistics is exact here; what the same lines compute in binary64 is \<open>update64\<close>
  below, and only that says what the program's average and deviation are. The queue, the
  early return and the two timestamps do not depend on the arithmetic.
\<close>

definition update :: "Event \<Rightarrow> 'g Domain \<Rightarrow> bool \<times> 'g Domain" where
  "update ev d =
     (let d = d\<lparr>events := events d @ [ev]\<rparr> in
      if event ev \<noteq> EV_RECV_DATA then (False, d)
      else
        let d = (if time_first d = 0 then d\<lparr>time_first := time ev\<rparr> else d);
            d = d\<lparr>time_last := time ev\<rparr>;
            old_avg = query_time_avg d;
            d = d\<lparr>query_time_avg := query_time_avg d * real (unat (query_count d))\<rparr>;
            d = d\<lparr>query_time_avg := query_time_avg d + duration ev\<rparr>;
            sqr_avg = old_avg * old_avg + query_time_stddev d * query_time_stddev d;
            sqr_avg = sqr_avg * real (unat (query_count d));
            sqr_avg = sqr_avg + duration ev * duration ev;
            d = d\<lparr>query_count := query_count d + 1\<rparr>;
            d = d\<lparr>query_time_avg := query_time_avg d / real (unat (query_count d))\<rparr>;
            sqr_avg = sqr_avg / real (unat (query_count d));
            d = d\<lparr>query_time_stddev := sqr_avg - query_time_avg d * query_time_avg d\<rparr>;
            d = d\<lparr>query_time_stddev := sqrt (query_time_stddev d)\<rparr>
        in (True, d))"

text \<open>Folding a sequence of events into a domain, one \<open>update\<close> at a time.\<close>

fun updates :: "Event list \<Rightarrow> 'g Domain \<Rightarrow> 'g Domain" where
  "updates [] d = d"
| "updates (ev # evs) d = updates evs (snd (update ev d))"

text \<open>The timestamps of the \<open>EV_RECV_DATA\<close> events of a sequence, in order.\<close>

fun recv_times :: "Event list \<Rightarrow> Time list" where
  "recv_times [] = []"
| "recv_times (ev # evs) = (if event ev = EV_RECV_DATA then time ev # recv_times evs else recv_times evs)"

text \<open>
  \<^verbatim>\<open>Domain::getRandomTarget\<close>. The draw is narrowed to \<^verbatim>\<open>unsigned char\<close>; the sums
  \<^verbatim>\<open>'a' + c\<close> and \<^verbatim>\<open>'0' + c - 26\<close> are computed in \<^verbatim>\<open>int\<close> and narrowed to \<^verbatim>\<open>char\<close>
  when appended. The loop runs \<open>target_len\<close> times, not at all when it is not positive.
\<close>

definition target_char :: "int \<Rightarrow> char" where
  "target_char r =
     (let c = (word_of_int r :: 8 word) in
      if c < 26 then char_of (97 + uint c) else char_of (48 + uint c - 26))"

fun random_chars :: "'g stdlib \<Rightarrow> nat \<Rightarrow> 'g \<Rightarrow> string \<Rightarrow> string \<times> 'g" where
  "random_chars L 0 g str = (str, g)"
| "random_chars L (Suc target_len) g str =
     (let (r, g) = random_char L g in random_chars L target_len g (str @ [target_char r]))"

definition getRandomTarget :: "'g stdlib \<Rightarrow> 'g Domain \<Rightarrow> string \<times> 'g Domain" where
  "getRandomTarget L d =
     (let (target_len, g) = random_length L (PRNG d);
          (str, g) = random_chars L (nat target_len) g []
      in (str, d\<lparr>PRNG := g\<rparr>))"

text \<open>The targets of \<open>n\<close> successive calls of \<open>getRandomTarget\<close> on one domain.\<close>

fun targets :: "'g stdlib \<Rightarrow> nat \<Rightarrow> 'g Domain \<Rightarrow> string list" where
  "targets L 0 d = []"
| "targets L (Suc n) d = (let (str, d) = getRandomTarget L d in str # targets L n d)"

section \<open>Logger (logger.h)\<close>

datatype Severity = LOG_DEBUG | LOG_INFO | LOG_WARN | LOG_ERROR | LOG_FATAL

fun severity_value :: "Severity \<Rightarrow> int" where
  "severity_value LOG_DEBUG = 0"
| "severity_value LOG_INFO = 1"
| "severity_value LOG_WARN = 2"
| "severity_value LOG_ERROR = 3"
| "severity_value LOG_FATAL = 4"

text \<open>
  What is streamed with \<^verbatim>\<open><<\<close> into a message or an SQL statement is kept as the
  sequence of inserted values; numbers are not formatted.
\<close>

datatype item = Text string | Double real | Unsigned "64 word" | Signed int

text \<open>
  The part of the process that is not the scheduler's own data: the outside world (the
  database server, the resolver, the network and the clocks, of an arbitrary type \<open>'w\<close>)
  and the statics of the logger. A printed line is kept as its sequence number, its
  severity and its message.
\<close>

record 'w sys =
  world :: 'w
  LOG_LEVEL :: int
  logSize :: size_t
  stderr :: "(size_t \<times> Severity \<times> item list) list"

definition Log_write :: "item list \<Rightarrow> Severity \<Rightarrow> 'w sys \<Rightarrow> 'w sys" where
  "Log_write message severity s =
     (if LOG_LEVEL s > severity_value severity then s
      else s\<lparr>logSize := logSize s + 1,
             stderr := stderr s @ [(logSize s + 1, severity, message)]\<rparr>)"

section \<open>What the libraries answer\<close>

datatype ldns_status = LDNS_STATUS_OK | LDNS_STATUS_OTHER nat

record timespec =
  tv_sec :: int
  tv_nsec :: int

text \<open>The fields of a received packet that \<^verbatim>\<open>sendQuery\<close> reads.\<close>

record ldns_pkt =
  pkt_qr :: bool
  pkt_timestamp :: Time
  pkt_querytime :: "32 word"
  pkt_answerfrom :: string

text \<open>
  Everything one call of \<^verbatim>\<open>sendQuery\<close> observes: \<^verbatim>\<open>time(0)\<close>, the two readings of
  \<^verbatim>\<open>clock_gettime\<close>, and the packet (if any) and status of
  \<^verbatim>\<open>ldns_resolver_query_status\<close>.
\<close>

record dns_outcome =
  now :: Time
  start_time :: timespec
  end_time :: timespec
  packet :: "ldns_pkt option"
  query_status :: ldns_status

text \<open>
  mysql++ and ldns are not part of the repository; they are parameters. The connection is
  created with exceptions disabled, so \<^verbatim>\<open>execute\<close> reports failure by its result.
  \<open>resolve\<close> is asked for the name of the domain, as the code does.
\<close>

record 'w outside =
  execute :: "'w \<Rightarrow> item list \<Rightarrow> bool \<times> 'w"
  query_error :: "'w \<Rightarrow> string"
  resolve :: "'w \<Rightarrow> string \<Rightarrow> dns_outcome \<times> 'w"
  errorstr :: "ldns_status \<Rightarrow> string"

section \<open>Database (MySQLAccess::saveDomains)\<close>

definition update_sql :: "'g Domain \<Rightarrow> item list" where
  "update_sql domain =
     [Text (''UPDATE domain SET name = '' @ [CHR 0x27]), Text (name domain),
      Text ([CHR 0x27] @ '', query_time_avg = ''), Double (query_time_avg domain),
      Text '', query_time_stddev = '', Double (query_time_stddev domain),
      Text '', query_count = '', Unsigned (query_count domain),
      Text '', time_first = FROM_UNIXTIME('', Unsigned (time_first domain),
      Text ''), time_last = FROM_UNIXTIME('', Unsigned (time_last domain),
      Text '') WHERE rank = '', Unsigned (rank domain), Text ('';'' @ [CHR 0x0A])]"

definition failed_sql :: "'w outside \<Rightarrow> 'w sys \<Rightarrow> 'w sys" where
  "failed_sql X s =
     Log_write [Text ''Failed to execute SQL statement: '', Text (query_error X (world s))]
       LOG_ERROR s"

text \<open>The first loop of \<^verbatim>\<open>saveDomains\<close>: one UPDATE statement for each domain.\<close>

fun update_domains :: "'w outside \<Rightarrow> 'g Domain list \<Rightarrow> 'w sys \<Rightarrow> 'w sys" where
  "update_domains X [] s = s"
| "update_domains X (domain # rest) s =
     (let sql = update_sql domain;
          s = Log_write ([Text ''Updating domains with query { ''] @ sql @ [Text '' }''])
                LOG_DEBUG s;
          (ok, w) = execute X (world s) sql;
          s = s\<lparr>world := w\<rparr>;
          s = (if \<not> ok then failed_sql X s else s)
      in update_domains X rest s)"

fun event_value :: "EventType \<Rightarrow> int" where
  "event_value EV_SEND_REQUEST = 0"
| "event_value EV_RECV_DATA = 1"
| "event_value EV_TIMEOUT = 2"
| "event_value EV_ERROR = 3"

definition measurement_row :: "int \<Rightarrow> size_t \<Rightarrow> Event \<Rightarrow> item list" where
  "measurement_row i rk ev =
     (if i > 0 then [Text '',''] else []) @
     [Text ''(FROM_UNIXTIME('', Unsigned (time ev), Text (''),'' @ [CHR 0x27]),
      Text (target ev), Text ([CHR 0x27] @ '',''), Signed (event_value (event ev)),
      Text '','', Double (duration ev), Text '','', Unsigned rk, Text ('')'' @ [CHR 0x0A])]"

text \<open>
  The inner \<^verbatim>\<open>while (!domain.getEvents().empty())\<close>: the front event is written into
  the statement and popped. The result is the queue that is left, the statement and the
  row counter \<open>i\<close> (an \<^verbatim>\<open>int\<close>, far from its range limit).
\<close>

fun drain_events :: "size_t \<Rightarrow> Event list \<Rightarrow> item list \<Rightarrow> int \<Rightarrow> Event list \<times> item list \<times> int" where
  "drain_events rk [] sql i = ([], sql, i)"
| "drain_events rk (ev # queue) sql i =
     drain_events rk queue (sql @ measurement_row i rk ev) (i + 1)"

text \<open>The second loop of \<^verbatim>\<open>saveDomains\<close>, over the domains.\<close>

fun insert_measurements ::
  "'g Domain list \<Rightarrow> item list \<Rightarrow> int \<Rightarrow> 'g Domain list \<times> item list \<times> int" where
  "insert_measurements [] sql i = ([], sql, i)"
| "insert_measurements (domain # rest) sql i =
     (let (queue, sql, i) = drain_events (rank domain) (events domain) sql i;
          (rest, sql, i) = insert_measurements rest sql i
      in (domain\<lparr>events := queue\<rparr> # rest, sql, i))"

text \<open>
  \<^verbatim>\<open>MySQLAccess::saveDomains\<close>: the result, the domains as the call leaves them, and the
  rest of the process.
\<close>

definition saveDomains ::
  "'w outside \<Rightarrow> 'g Domain list \<Rightarrow> 'w sys \<Rightarrow> bool \<times> 'g Domain list \<times> 'w sys" where
  "saveDomains X domains s =
     (if domains = [] then (False, domains, s)
      else
        let s = update_domains X domains s;
            sql = [Text (''INSERT INTO measurement (time, target, type, duration_ms, domain_rank) VALUES ''
                         @ [CHR 0x0A])];
            (domains, sql, i) = insert_measurements domains sql 0;
            sql = sql @ [Text '';''];
            (ok, w) = execute X (world s) sql;
            s = s\<lparr>world := w\<rparr>;
            s = (if \<not> ok then failed_sql X s else s);
            s = Log_write ([Text ''Inserting measurements with query { ''] @ sql @ [Text '' }''])
                  LOG_DEBUG s
        in (True, domains, s))"

section \<open>Network communication (RemoteQuery, DNSQuery)\<close>

record Reply =
  reply_time :: Time
  reply_target :: string
  reply_event :: EventType
  reply_duration :: real

text \<open>
  \<^verbatim>\<open>RemoteQuery::probe\<close>. The virtual \<^verbatim>\<open>sendQuery\<close> is a parameter: it may change the
  bound domain and the rest of the process, and returns the reply and its flag.
\<close>

definition probe ::
  "('g Domain \<Rightarrow> 'w sys \<Rightarrow> (Reply \<times> bool) \<times> 'g Domain \<times> 'w sys) \<Rightarrow>
   'g Domain \<Rightarrow> 'w sys \<Rightarrow> bool \<times> 'g Domain \<times> 'w sys" where
  "probe sendQuery domain s =
     (let (reply, domain, s) = sendQuery domain s;
          s = (if \<not> snd reply
               then Log_write [Text ''Cannot send query to '', Text (name domain)] LOG_ERROR s
               else s);
          (r, domain) = update \<lparr>time = reply_time (fst reply), target = reply_target (fst reply),
                                event = reply_event (fst reply),
                                duration = reply_duration (fst reply)\<rparr> domain
      in (snd reply, domain, s))"

definition SEC_TO_MILLI :: real where
  "SEC_TO_MILLI = 1000"

definition MILLI_TO_NANO :: real where
  "MILLI_TO_NANO = 1000"

text \<open>The duration \<^verbatim>\<open>sendQuery\<close> computes from the two clock readings.\<close>

definition clock_duration :: "timespec \<Rightarrow> timespec \<Rightarrow> real" where
  "clock_duration start_t end_t =
     real_of_int (tv_sec end_t - tv_sec start_t) * SEC_TO_MILLI
     + real_of_int (tv_nsec end_t - tv_nsec start_t) / MILLI_TO_NANO"

text \<open>\<^verbatim>\<open>DNSQuery::sendQuery\<close>.\<close>

definition sendQuery ::
  "'g stdlib \<Rightarrow> 'w outside \<Rightarrow> 'g Domain \<Rightarrow> 'w sys \<Rightarrow> (Reply \<times> bool) \<times> 'g Domain \<times> 'w sys" where
  "sendQuery L X domain s =
     (let (str, domain) = getRandomTarget L domain;
          (out, w) = resolve X (world s) (name domain);
          s = s\<lparr>world := w\<rparr>;
          reply = \<lparr>reply_time = now out, reply_target = str @ ''.'' @ name domain,
                   reply_event = EV_SEND_REQUEST,
                   reply_duration = clock_duration (start_time out) (end_time out)\<rparr>;
          s = Log_write [Text ''Sending query for '', Text (reply_target reply)] LOG_INFO s;
          (reply, s) =
            (case packet out of
               None \<Rightarrow> (reply, s)
             | Some pkt \<Rightarrow>
                 if pkt_qr pkt then
                   let reply = reply\<lparr>reply_event := EV_RECV_DATA\<rparr>;
                       reply = (if query_status out = LDNS_STATUS_OK
                                then reply\<lparr>reply_time := pkt_timestamp pkt,
                                           reply_duration := real (unat (pkt_querytime pkt))\<rparr>
                                else reply);
                       reply_ns_str = (if query_status out = LDNS_STATUS_OK
                                       then '' from '' @ pkt_answerfrom pkt else [])
                   in (reply,
                       Log_write [Text ''Got answer'', Text reply_ns_str,
                                  Text '' with status: { '', Text (errorstr X (query_status out)),
                                  Text '' } in '', Double (reply_duration reply), Text '' ms'']
                         LOG_INFO s)
                 else (reply, s))
      in ((reply, True), domain, s))"

section \<open>Vantage point\<close>

datatype call = Call_save | Call_probe

text \<open>
  The singleton, together with the static counter of \<^verbatim>\<open>sigHandler\<close> and the rest of the
  process. \<^verbatim>\<open>_remoteQueries\<close> is kept in its iteration order, each query as the index of
  the domain it points to in \<open>domains\<close>. \<open>calls\<close> is for observation only: it records the
  calls of \<^verbatim>\<open>save\<close> and \<^verbatim>\<open>probe\<close> in order, and no step reads it.
\<close>

record ('g, 'w) Vantage =
  probe_interval :: Time
  dbupdate_freq :: real
  domains :: "'g Domain list"
  remoteQueries :: "(string \<times> nat) list"
  flag_stop :: bool
  alarm_counter :: size_t
  sys :: "'w sys"
  calls :: "call list"

definition save :: "'w outside \<Rightarrow> ('g, 'w) Vantage \<Rightarrow> ('g, 'w) Vantage" where
  "save X v =
     (let (r, ds, s) = saveDomains X (domains v) (sys v)
      in v\<lparr>domains := ds, sys := s, calls := calls v @ [Call_save]\<rparr>)"




datatype signal = SIGALRM | SIGINT | SIGHUP | SIGTERM | SIGOTHER int



section \<open>Statistics of the full history\<close>

text \<open>The arithmetic mean and the population (biased) standard deviation of a list.\<close>

definition mean :: "real list \<Rightarrow> real" where
  "mean ds = sum_list ds / real (length ds)"

definition population_stddev :: "real list \<Rightarrow> real" where
  "population_stddev ds = sqrt (sum_list (map (\<lambda>x. (x - mean ds)\<^sup>2) ds) / real (length ds))"

section \<open>Binary64 arithmetic (the double of the statistics)\<close>

text \<open>
  A binary64 value: a finite number (a rational; every result of the operations below is
  representable), an infinity or NaN. The sign of a zero is not tracked:
  \<^verbatim>\<open>Domain::update\<close> divides only by a converted count, never by a computed zero, so
  that sign cannot change any of its results.
\<close>

datatype double = Fin rat | PlusInf | MinusInf | NaN

text \<open>The number of binary digits of a positive integer.\<close>

function bitlen :: "int \<Rightarrow> int" where
  "bitlen n = (if n \<le> 0 then 0 else 1 + bitlen (n div 2))"
  by pat_completeness auto
termination
  by (relation "measure nat") auto

declare bitlen.simps [simp del]

definition pow2 :: "int \<Rightarrow> rat" where
  "pow2 e = (if 0 \<le> e then 2 ^ nat e else 1 / 2 ^ nat (- e))"

text \<open>For \<open>x > 0\<close>, the exponent \<open>e\<close> with \<open>pow2 e \<le> x < pow2 (e + 1)\<close>.\<close>

definition floor_log2 :: "rat \<Rightarrow> int" where
  "floor_log2 x =
     (let (p, q) = quotient_of x; d = bitlen p - bitlen q
      in if pow2 d \<le> x then d else d - 1)"

definition round_half_even :: "rat \<Rightarrow> int" where
  "round_half_even x =
     (let f = \<lfloor>x\<rfloor>; r = x - of_int f
      in if r < 1 / 2 then f else if 1 / 2 < r then f + 1 else if even f then f else f + 1)"

text \<open>
  Rounding to nearest, ties to even, with 53 significant bits. The exponent goes from
  -1022 (below it the spacing stays \<open>pow2 (- 1074)\<close>: the subnormal numbers) to 1023
  (a rounded value of \<open>pow2 1024\<close> or more is an infinity).
\<close>

definition round_b64 :: "rat \<Rightarrow> double" where
  "round_b64 x =
     (if x = 0 then Fin 0
      else
        let e = max (floor_log2 \<bar>x\<bar>) (- 1022);
            u = pow2 (e - 52);
            y = of_int (round_half_even (\<bar>x\<bar> / u)) * u
        in if 1023 < floor_log2 y then (if 0 < x then PlusInf else MinusInf)
           else Fin (if 0 < x then y else - y))"

text \<open>
  The operations of IEEE 754, each rounded once. A zero divisor is taken as +0, which is
  what a converted count is.
\<close>

fun add64 :: "double \<Rightarrow> double \<Rightarrow> double" where
  "add64 NaN b = NaN"
| "add64 a NaN = NaN"
| "add64 (Fin x) (Fin y) = round_b64 (x + y)"
| "add64 PlusInf MinusInf = NaN"
| "add64 MinusInf PlusInf = NaN"
| "add64 PlusInf b = PlusInf"
| "add64 MinusInf b = MinusInf"
| "add64 (Fin x) b = b"

fun sub64 :: "double \<Rightarrow> double \<Rightarrow> double" where
  "sub64 NaN b = NaN"
| "sub64 a NaN = NaN"
| "sub64 (Fin x) (Fin y) = round_b64 (x - y)"
| "sub64 PlusInf PlusInf = NaN"
| "sub64 MinusInf MinusInf = NaN"
| "sub64 PlusInf b = PlusInf"
| "sub64 MinusInf b = MinusInf"
| "sub64 (Fin x) PlusInf = MinusInf"
| "sub64 (Fin x) MinusInf = PlusInf"

definition negative :: "double \<Rightarrow> bool" where
  "negative a = (case a of Fin x \<Rightarrow> x < 0 | MinusInf \<Rightarrow> True | _ \<Rightarrow> False)"

definition signed_inf :: "bool \<Rightarrow> double" where
  "signed_inf neg = (if neg then MinusInf else PlusInf)"

fun mul64 :: "double \<Rightarrow> double \<Rightarrow> double" where
  "mul64 NaN b = NaN"
| "mul64 a NaN = NaN"
| "mul64 (Fin x) (Fin y) = round_b64 (x * y)"
| "mul64 (Fin x) b = (if x = 0 then NaN else signed_inf ((x < 0) \<noteq> negative b))"
| "mul64 a (Fin y) = (if y = 0 then NaN else signed_inf (negative a \<noteq> (y < 0)))"
| "mul64 a b = signed_inf (negative a \<noteq> negative b)"

fun div64 :: "double \<Rightarrow> double \<Rightarrow> double" where
  "div64 NaN b = NaN"
| "div64 a NaN = NaN"
| "div64 (Fin x) (Fin y) =
     (if y = 0 then (if x = 0 then NaN else signed_inf (x < 0)) else round_b64 (x / y))"
| "div64 (Fin x) b = Fin 0"
| "div64 a (Fin y) = signed_inf (negative a \<noteq> (y < 0))"
| "div64 a b = NaN"

text \<open>
  The integer square root, one binary digit at a time from the top, and the correctly
  rounded square root; the square root of a negative number is NaN.
\<close>

fun isqrt_from :: "nat \<Rightarrow> int \<Rightarrow> int \<Rightarrow> int" where
  "isqrt_from 0 n r = (if (r + 1) * (r + 1) \<le> n then r + 1 else r)"
| "isqrt_from (Suc k) n r =
     isqrt_from k n (if (r + 2 ^ Suc k) * (r + 2 ^ Suc k) \<le> n then r + 2 ^ Suc k else r)"

definition isqrt :: "int \<Rightarrow> int" where
  "isqrt n = (if n \<le> 0 then 0 else isqrt_from (nat (bitlen n)) n 0)"

definition sqrt64 :: "double \<Rightarrow> double" where
  "sqrt64 a =
     (case a of
        NaN \<Rightarrow> NaN
      | MinusInf \<Rightarrow> NaN
      | PlusInf \<Rightarrow> PlusInf
      | Fin x \<Rightarrow>
          if x < 0 then NaN
          else if x = 0 then Fin 0
          else
            let e = max (floor_log2 x div 2) (- 1022);
                u = pow2 (e - 52);
                t = x / (u * u);
                m = isqrt \<lfloor>t\<rfloor>;
                h = (of_int m + 1 / 2) * (of_int m + 1 / 2);
                m = (if t < h then m else if h < t then m + 1 else if even m then m else m + 1)
            in Fin (of_int m * u))"

text \<open>The conversion of a \<^verbatim>\<open>size_t\<close> to \<^verbatim>\<open>double\<close>.\<close>

definition to_double :: "64 word \<Rightarrow> double" where
  "to_double n = round_b64 (of_int (uint n))"

text \<open>
  Lines 139 to 162 of \<^verbatim>\<open>Domain::update\<close>, the statistics of an \<open>EV_RECV_DATA\<close> event
  of duration \<open>d\<close>, on the three fields they read and write, in binary64 arithmetic:
  every multiplication, addition, division and subtraction is rounded on its own to
  binary64 (as with SSE2 on x86-64: no extended precision, no fused multiply-add).
  \<open>update64_variance\<close> stops after line 161, where \<^verbatim>\<open>_query_time_stddev\<close> holds the
  variance; \<open>update64\<close> adds line 162, the square root. The code has no clamp between
  the two.
\<close>

record stats64 =
  query_time_avg64 :: double
  query_time_stddev64 :: double
  query_count64 :: "64 word"

definition update64_variance :: "double \<Rightarrow> stats64 \<Rightarrow> stats64" where
  "update64_variance d s =
     (let old_avg = query_time_avg64 s;
          s = s\<lparr>query_time_avg64 := mul64 (query_time_avg64 s) (to_double (query_count64 s))\<rparr>;
          s = s\<lparr>query_time_avg64 := add64 (query_time_avg64 s) d\<rparr>;
          sqr_avg = add64 (mul64 old_avg old_avg)
                      (mul64 (query_time_stddev64 s) (query_time_stddev64 s));
          sqr_avg = mul64 sqr_avg (to_double (query_count64 s));
          sqr_avg = add64 sqr_avg (mul64 d d);
          s = s\<lparr>query_count64 := query_count64 s + 1\<rparr>;
          s = s\<lparr>query_time_avg64 := div64 (query_time_avg64 s) (to_double (query_count64 s))\<rparr>;
          sqr_avg = div64 sqr_avg (to_double (query_count64 s))
      in s\<lparr>query_time_stddev64 :=
             sub64 sqr_avg (mul64 (query_time_avg64 s) (query_time_avg64 s))\<rparr>)"

definition update64 :: "double \<Rightarrow> stats64 \<Rightarrow> stats64" where
  "update64 d s =
     (let s = update64_variance d s
      in s\<lparr>query_time_stddev64 := sqrt64 (query_time_stddev64 s)\<rparr>)"

text \<open>
  The statistics of a fresh domain, and the \<^verbatim>\<open>double\<close> nearest to one tenth (the value
  of the literal \<^verbatim>\<open>0.1\<close>).
\<close>

definition fresh64 :: stats64 where
  "fresh64 = \<lparr>query_time_avg64 = Fin 0, query_time_stddev64 = Fin 0, query_count64 = 0\<rparr>"

definition tenth :: double where
  "tenth = Fin (3602879701896397 / 36028797018963968)"

section \<open>Concrete instances for evaluation\<close>

text \<open>
  A small linear congruential engine for the library parameters, and an outside world
  that answers every statement with the same result and every query with the same outcome.
\<close>

definition example_stdlib :: "int stdlib" where
  "example_stdlib =
     \<lparr>seed = (\<lambda>h. if h = 0 then 1 else uint h),
      random_length = (\<lambda>g. let g = (16807 * g) mod 2147483647 in (4 + g mod 7, g)),
      random_char = (\<lambda>g. let g = (16807 * g) mod 2147483647 in (g mod 36, g))\<rparr>"

definition example_outside :: "bool \<Rightarrow> dns_outcome \<Rightarrow> unit outside" where
  "example_outside ok out =
     \<lparr>execute = (\<lambda>w sql. (ok, w)), query_error = (\<lambda>w. ''server has gone away''),
      resolve = (\<lambda>w nm. (out, w)),
      errorstr = (\<lambda>st. if st = LDNS_STATUS_OK then ''All OK'' else ''General LDNS error'')\<rparr>"

definition example_sys :: "unit sys" where
  "example_sys = \<lparr>world = (), LOG_LEVEL = 0, logSize = 0, stderr = []\<rparr>"

definition example_domain :: "int Domain" where
  "example_domain = Domain_ctor example_stdlib ''example.com'' 1 0 0 0 0 0"

definition example_event :: "EventType \<Rightarrow> Time \<Rightarrow> real \<Rightarrow> Event" where
  "example_event k t ms = \<lparr>time = t, target = ''abcd.example.com'', event = k, duration = ms\<rparr>"

definition example_outcome :: "ldns_pkt option \<Rightarrow> ldns_status \<Rightarrow> dns_outcome" where
  "example_outcome pkt st =
     \<lparr>now = 1477831000, start_time = \<lparr>tv_sec = 1477831000, tv_nsec = 250000\<rparr>,
      end_time = \<lparr>tv_sec = 1477831002, tv_nsec = 750000\<rparr>, packet = pkt, query_status = st\<rparr>"

definition example_pkt :: ldns_pkt where
  "example_pkt =
     \<lparr>pkt_qr = True, pkt_timestamp = 1477831002, pkt_querytime = 37,
      pkt_answerfrom = ''192.0.2.53''\<rparr>"

definition example_vantage :: "'g Domain list \<Rightarrow> real \<Rightarrow> ('g, unit) Vantage" where
  "example_vantage ds freq =
     \<lparr>probe_interval = 1000, dbupdate_freq = freq, domains = ds,
      remoteQueries = map (\<lambda>i. (name (ds ! i), i)) [0..<length ds], flag_stop = False,
      alarm_counter = 0, sys = example_sys, calls = []\<rparr>"

text \<open>A variant of \<^verbatim>\<open>sendQuery\<close> that reports failure, with a best-effort reply.\<close>

definition failed_send :: "int Domain \<Rightarrow> unit sys \<Rightarrow> (Reply \<times> bool) \<times> int Domain \<times> unit sys" where
  "failed_send d s =
     ((\<lparr>reply_time = 1477831000, reply_target = ''abcd.example.com'', reply_event = EV_ERROR,
        reply_duration = 0\<rparr>, False), d, s)"

section \<open>Domain::update on events that are not answers\<close>

text \<open>
  C8. For every event whose kind is not \<open>EV_RECV_DATA\<close>, \<open>update\<close> returns false, appends
  the event to the pending events and leaves the average, the standard deviation, the
  count, \<open>time_first\<close> and \<open>time_last\<close> (and every other field) as they were.
\<close>

theorem update_non_recv_frame:
  "event ev \<noteq> EV_RECV_DATA \<Longrightarrow>
   update ev d = (False, d\<lparr>events := events d @ [ev]\<rparr>)
   \<and> events (snd (update ev d)) = events d @ [ev]
   \<and> query_time_avg (snd (update ev d)) = query_time_avg d
   \<and> query_time_stddev (snd (update ev d)) = query_time_stddev d
   \<and> query_count (snd (update ev d)) = query_count d
   \<and> time_first (snd (update ev d)) = time_first d
   \<and> time_last (snd (update ev d)) = time_last d"
  by (simp add: update_def)

theorem update_non_recv_frame_witness:
  "event (example_event EV_SEND_REQUEST 1477831000 2000.5) \<noteq> EV_RECV_DATA
   \<and> fst (update (example_event EV_SEND_REQUEST 1477831000 2000.5) example_domain) = False
   \<and> events (snd (update (example_event EV_SEND_REQUEST 1477831000 2000.5) example_domain))
       = [example_event EV_SEND_REQUEST 1477831000 2000.5]
   \<and> query_count (snd (update (example_event EV_SEND_REQUEST 1477831000 2000.5) example_domain)) = 0"
proof -
  have h: "event (example_event EV_SEND_REQUEST 1477831000 2000.5) \<noteq> EV_RECV_DATA"
    by (simp add: example_event_def)
  have e: "events example_domain = []" "query_count example_domain = 0"
    by (simp_all add: example_domain_def Domain_ctor_def double_to_ulong_def)
  show ?thesis
    using h e update_non_recv_frame [OF h, of example_domain] by simp
qed

section \<open>saveDomains and the pending events\<close>

lemma drain_events_empty: "fst (drain_events rk queue sql i) = []"
  by (induction queue arbitrary: sql i) simp_all

lemma insert_measurements_drains:
  "fst (insert_measurements ds sql i) = map (\<lambda>d. d\<lparr>events := []\<rparr>) ds"
proof (induction ds arbitrary: sql i)
  case Nil
  show ?case by simp
next
  case (Cons d ds)
  obtain q sql1 i1 where dr: "drain_events (rank d) (events d) sql i = (q, sql1, i1)"
    by (cases "drain_events (rank d) (events d) sql i") auto
  have q: "q = []" using drain_events_empty [of "rank d" "events d" sql i] dr by simp
  obtain r sql2 i2 where im: "insert_measurements ds sql1 i1 = (r, sql2, i2)"
    by (cases "insert_measurements ds sql1 i1") auto
  have "r = map (\<lambda>d. d\<lparr>events := []\<rparr>) ds" using Cons.IH [of sql1 i1] im by simp
  with dr im q show ?case by simp
qed

lemma insert_measurements_drainsD:
  "insert_measurements ds sql i = (r, sql', i') \<Longrightarrow> r = map (\<lambda>d. d\<lparr>events := []\<rparr>) ds"
  using insert_measurements_drains [of ds sql i] by simp

text \<open>
  C10. Called with an empty collection of domains, \<open>saveDomains\<close> returns false and
  does nothing: no statement is executed, nothing is logged, and the domains and the
  rest of the process (the storage connection included) are as before.
\<close>

theorem saveDomains_empty:
  "saveDomains X [] s = (False, [], s)"
  by (simp add: saveDomains_def)

text \<open>
  C2, as the code has it. \<open>saveDomains\<close> is total: a statement that fails is logged and
  the call goes on and returns true for every non-empty collection. The pending events of
  every domain are popped while the INSERT statement is built, before it is executed: the
  queues are empty afterwards whether the statements succeeded or failed, so nothing is
  left to retry.
\<close>

theorem saveDomains_drains_always:
  "fst (saveDomains X (ds :: 'g Domain list) s) = (ds \<noteq> [])
   \<and> fst (snd (saveDomains X ds s)) = map (\<lambda>d. d\<lparr>events := []\<rparr>) ds
   \<and> domains (save X (v :: ('g, 'w) Vantage)) = map (\<lambda>d. d\<lparr>events := []\<rparr>) (domains v)"
proof -
  have a: "fst (snd (saveDomains X ds s)) = map (\<lambda>d. d\<lparr>events := []\<rparr>) ds"
    for ds :: "'g Domain list" and s
    by (auto simp: saveDomains_def Let_def split: prod.splits dest: insert_measurements_drainsD)
  have b: "fst (saveDomains X ds s) = (ds \<noteq> [])"
    by (simp add: saveDomains_def Let_def split: prod.splits)
  have c: "domains (save X v) = map (\<lambda>d. d\<lparr>events := []\<rparr>) (domains v)"
    using a [of "domains v" "sys v"] by (auto simp: save_def split: prod.splits)
  from a b c show ?thesis by simp
qed

lemma pending_example:
  "snd (update (example_event EV_SEND_REQUEST 1477831000 2000.5) example_domain)
   = example_domain\<lparr>events := [example_event EV_SEND_REQUEST 1477831000 2000.5]\<rparr>"
  by (simp add: update_def example_event_def example_domain_def Domain_ctor_def)

text \<open>
  A domain with one pending event and a database that fails every statement: after the
  flush the queue is empty, and the log shows the two failures.
\<close>

theorem save_failure_drops_events:
  "events (snd (update (example_event EV_SEND_REQUEST 1477831000 2000.5) example_domain))
     = [example_event EV_SEND_REQUEST 1477831000 2000.5]
   \<and> fst (execute (example_outside False (example_outcome None LDNS_STATUS_OK)) () []) = False
   \<and> map (\<lambda>d. events d)
        (domains (save (example_outside False (example_outcome None LDNS_STATUS_OK))
           (example_vantage
              [snd (update (example_event EV_SEND_REQUEST 1477831000 2000.5) example_domain)] 4)))
     = [[]]
   \<and> map (\<lambda>l. fst (snd l))
        (stderr (sys (save (example_outside False (example_outcome None LDNS_STATUS_OK))
           (example_vantage
              [snd (update (example_event EV_SEND_REQUEST 1477831000 2000.5) example_domain)] 4))))
     = [LOG_DEBUG, LOG_ERROR, LOG_ERROR, LOG_DEBUG]"
  unfolding pending_example
  by (simp add: save_def saveDomains_def example_vantage_def example_outside_def example_sys_def
      Log_write_def failed_sql_def Let_def)

theorem saveDomains_drains_always_witness:
  "map (\<lambda>d. events d)
     (fst (snd (saveDomains (example_outside True (example_outcome None LDNS_STATUS_OK))
        [example_domain\<lparr>events := [example_event EV_SEND_REQUEST 1477831000 2000.5]\<rparr>]
        example_sys))) = [[]]"
  using saveDomains_drains_always [of "example_outside True (example_outcome None LDNS_STATUS_OK)"
      "[example_domain\<lparr>events := [example_event EV_SEND_REQUEST 1477831000 2000.5]\<rparr>]" example_sys]
  by simp

section \<open>RemoteQuery::probe\<close>

text \<open>
  C3. Whatever \<open>sendQuery\<close> returns, \<open>probe\<close> folds the reply into the bound domain
  with \<open>update\<close> (the reply's four fields become the event, which is appended to the
  pending events), also when the flag is false: then the only other effect is one
  error line in the log. \<open>probe\<close> returns the flag of \<open>sendQuery\<close>.
\<close>

theorem probe_folds_every_reply:
  "sendQuery_v d s = ((reply, ok), d1, s1) \<Longrightarrow>
   probe sendQuery_v d s =
     (ok,
      snd (update \<lparr>time = reply_time reply, target = reply_target reply,
                   event = reply_event reply, duration = reply_duration reply\<rparr> d1),
      if ok then s1
      else Log_write [Text ''Cannot send query to '', Text (name d1)] LOG_ERROR s1)
   \<and> fst (probe sendQuery_v d s) = ok
   \<and> events (fst (snd (probe sendQuery_v d s))) =
       events d1 @ [\<lparr>time = reply_time reply, target = reply_target reply,
                     event = reply_event reply, duration = reply_duration reply\<rparr>]"
  by (simp add: probe_def update_def Let_def split: prod.splits)

theorem probe_folds_every_reply_witness:
  "fst (probe failed_send example_domain example_sys) = False
   \<and> events (fst (snd (probe failed_send example_domain example_sys))) =
       [\<lparr>time = 1477831000, target = ''abcd.example.com'', event = EV_ERROR, duration = 0\<rparr>]
   \<and> map (\<lambda>l. fst (snd l)) (stderr (snd (snd (probe failed_send example_domain example_sys))))
       = [LOG_ERROR]"
proof -
  have h: "failed_send example_domain example_sys =
      ((\<lparr>reply_time = 1477831000, reply_target = ''abcd.example.com'', reply_event = EV_ERROR,
         reply_duration = 0\<rparr>, False), example_domain, example_sys)"
    by (simp add: failed_send_def)
  have e: "events example_domain = []"
    by (simp add: example_domain_def Domain_ctor_def)
  note t = probe_folds_every_reply [where sendQuery_v = failed_send and d = example_domain
      and s = example_sys, OF h]
  have 1: "fst (probe failed_send example_domain example_sys) = False"
    using t [THEN conjunct2, THEN conjunct1] .
  have 2: "events (fst (snd (probe failed_send example_domain example_sys))) =
      [\<lparr>time = 1477831000, target = ''abcd.example.com'', event = EV_ERROR, duration = 0\<rparr>]"
    using t [THEN conjunct2, THEN conjunct2] e by simp
  have 3: "map (\<lambda>l. fst (snd l))
      (stderr (snd (snd (probe failed_send example_domain example_sys)))) = [LOG_ERROR]"
    unfolding t [THEN conjunct1] by (simp add: Log_write_def example_sys_def)
  from 1 2 3 show ?thesis by blast
qed

section \<open>DNSQuery::sendQuery\<close>

lemma getRandomTarget_name: "name (snd (getRandomTarget L d)) = name d"
  by (simp add: getRandomTarget_def split: prod.splits)

text \<open>
  C5, as the code has it. \<open>sendQuery\<close> always reports success, and the kind of its reply
  is \<open>EV_SEND_REQUEST\<close> or \<open>EV_RECV_DATA\<close>, never a timeout or an error. Without a
  response (no packet, or a packet whose QR bit is not set) the reply keeps
  \<open>EV_SEND_REQUEST\<close>. With a response packet the kind is \<open>EV_RECV_DATA\<close>, whatever the
  status of the resolution, so also when it is not OK.
\<close>

theorem sendQuery_unanswered:
  "resolve X (world s) (name d) = (out, w) \<Longrightarrow>
   snd (fst (sendQuery L X d s)) = True
   \<and> reply_event (fst (fst (sendQuery L X d s))) \<in> {EV_SEND_REQUEST, EV_RECV_DATA}
   \<and> ((packet out = None \<or> (\<exists>pkt. packet out = Some pkt \<and> \<not> pkt_qr pkt)) \<longrightarrow>
        reply_event (fst (fst (sendQuery L X d s))) = EV_SEND_REQUEST)
   \<and> ((\<exists>pkt. packet out = Some pkt \<and> pkt_qr pkt) \<longrightarrow>
        reply_event (fst (fst (sendQuery L X d s))) = EV_RECV_DATA)"
  using getRandomTarget_name [of L d]
  by (auto simp: sendQuery_def Let_def split: prod.splits option.splits)

theorem sendQuery_unanswered_witness:
  "packet (example_outcome None (LDNS_STATUS_OTHER 1)) = None
   \<and> reply_event (fst (fst (sendQuery example_stdlib
        (example_outside True (example_outcome None (LDNS_STATUS_OTHER 1)))
        example_domain example_sys))) = EV_SEND_REQUEST
   \<and> packet (example_outcome (Some example_pkt) (LDNS_STATUS_OTHER 1)) = Some example_pkt
   \<and> pkt_qr example_pkt
   \<and> reply_event (fst (fst (sendQuery example_stdlib
        (example_outside True (example_outcome (Some example_pkt) (LDNS_STATUS_OTHER 1)))
        example_domain example_sys))) = EV_RECV_DATA"
proof -
  have h1: "resolve (example_outside True (example_outcome None (LDNS_STATUS_OTHER 1)))
      (world example_sys) (name example_domain) = (example_outcome None (LDNS_STATUS_OTHER 1), ())"
    by (simp add: example_outside_def)
  have h2: "resolve (example_outside True (example_outcome (Some example_pkt) (LDNS_STATUS_OTHER 1)))
      (world example_sys) (name example_domain)
      = (example_outcome (Some example_pkt) (LDNS_STATUS_OTHER 1), ())"
    by (simp add: example_outside_def)
  have p: "packet (example_outcome pk st) = pk" for pk st
    by (simp add: example_outcome_def)
  have q: "pkt_qr example_pkt" by (simp add: example_pkt_def)
  show ?thesis
    using sendQuery_unanswered [OF h1, of example_stdlib] sendQuery_unanswered [OF h2, of example_stdlib]
      p q
    by simp
qed

text \<open>
  A response packet with a status that is not OK: the reply is not an
  \<open>EV_SEND_REQUEST\<close> but an \<open>EV_RECV_DATA\<close>.
\<close>

theorem sendQuery_non_ok_answer_is_recv_data:
  "query_status (example_outcome (Some example_pkt) (LDNS_STATUS_OTHER 1)) \<noteq> LDNS_STATUS_OK
   \<and> reply_event (fst (fst (sendQuery example_stdlib
        (example_outside True (example_outcome (Some example_pkt) (LDNS_STATUS_OTHER 1)))
        example_domain example_sys))) = EV_RECV_DATA
   \<and> reply_event (fst (fst (sendQuery example_stdlib
        (example_outside True (example_outcome (Some example_pkt) (LDNS_STATUS_OTHER 1)))
        example_domain example_sys))) \<noteq> EV_SEND_REQUEST"
  by (simp add: sendQuery_def example_outside_def example_outcome_def example_pkt_def Let_def
      split: prod.splits)

section \<open>time_first and time_last\<close>

lemma update_time_first_kept:
  "time_first d \<noteq> 0 \<Longrightarrow> time_first (snd (update ev d)) = time_first d"
  by (simp add: update_def Let_def)

lemma updates_time_first_kept:
  "time_first d \<noteq> 0 \<Longrightarrow> time_first (updates evs d) = time_first d"
  by (induction evs arbitrary: d) (simp_all add: update_time_first_kept)

text \<open>
  C6, as the code has it. \<open>time_first = 0\<close> is what the code takes for "not set": an
  \<open>EV_RECV_DATA\<close> event folded in while \<open>time_first\<close> is 0 assigns its timestamp to it,
  and once \<open>time_first\<close> is not 0 no sequence of updates changes it. Other events leave
  it alone. \<open>time_last\<close> is set to the timestamp of every \<open>EV_RECV_DATA\<close> event.
\<close>

theorem time_first_set_while_zero:
  "(time_first d \<noteq> 0 \<longrightarrow> time_first (updates evs d) = time_first d)
   \<and> (event ev = EV_RECV_DATA \<and> time_first d = 0 \<longrightarrow> time_first (snd (update ev d)) = time ev)
   \<and> (event ev \<noteq> EV_RECV_DATA \<longrightarrow> time_first (snd (update ev d)) = time_first d)
   \<and> (event ev = EV_RECV_DATA \<longrightarrow> time_last (snd (update ev d)) = time ev)"
  by (simp add: updates_time_first_kept update_def Let_def)

theorem time_first_set_while_zero_witness:
  "time_first (snd (update (example_event EV_RECV_DATA 1477831000 37) example_domain)) = 1477831000
   \<and> time_first (updates [example_event EV_RECV_DATA 1477831060 41, example_event EV_RECV_DATA 5 12]
        (snd (update (example_event EV_RECV_DATA 1477831000 37) example_domain))) = 1477831000
   \<and> time_last (snd (update (example_event EV_RECV_DATA 1477831000 37) example_domain)) = 1477831000
   \<and> time_first (snd (update (example_event EV_TIMEOUT 1477831000 37) example_domain)) = 0"
proof -
  have z: "time_first example_domain = 0"
    by (simp add: example_domain_def Domain_ctor_def double_to_ulong_def)
  have e: "event (example_event k t ms) = k" "time (example_event k t ms) = t" for k t ms
    by (simp_all add: example_event_def)
  note a = time_first_set_while_zero [of example_domain "[]"
      "example_event EV_RECV_DATA 1477831000 37"]
  note b = time_first_set_while_zero [of
      "snd (update (example_event EV_RECV_DATA 1477831000 37) example_domain)"
      "[example_event EV_RECV_DATA 1477831060 41, example_event EV_RECV_DATA 5 12]"
      "example_event EV_RECV_DATA 1477831000 37"]
  note c = time_first_set_while_zero [of example_domain "[]"
      "example_event EV_TIMEOUT 1477831000 37"]
  have 1: "time_first (snd (update (example_event EV_RECV_DATA 1477831000 37) example_domain))
      = 1477831000"
    using a z e by simp
  have 2: "time_first (updates [example_event EV_RECV_DATA 1477831060 41, example_event EV_RECV_DATA 5 12]
        (snd (update (example_event EV_RECV_DATA 1477831000 37) example_domain))) = 1477831000"
    using b [THEN conjunct1] 1 by simp
  have 3: "time_last (snd (update (example_event EV_RECV_DATA 1477831000 37) example_domain))
      = 1477831000"
    using a e by simp
  have 4: "time_first (snd (update (example_event EV_TIMEOUT 1477831000 37) example_domain)) = 0"
    using c z e by simp
  from 1 2 3 4 show ?thesis by blast
qed

text \<open>
  A first answer with timestamp 0 leaves \<open>time_first\<close> at 0, and the next update
  changes it.
\<close>

theorem time_first_changed_by_later_update:
  "event (example_event EV_RECV_DATA 0 37) = EV_RECV_DATA
   \<and> time_first (snd (update (example_event EV_RECV_DATA 0 37) example_domain)) = 0
   \<and> time_first (snd (update (example_event EV_RECV_DATA 1477831060 41)
        (snd (update (example_event EV_RECV_DATA 0 37) example_domain)))) = 1477831060"
  by (simp add: update_def example_event_def example_domain_def Domain_ctor_def
      double_to_ulong_def Let_def)

lemma update_first_le_last:
  "event ev = EV_RECV_DATA \<Longrightarrow> time_first d \<le> time ev \<Longrightarrow>
   time_first (snd (update ev d)) \<le> time_last (snd (update ev d))
   \<and> time_last (snd (update ev d)) = time ev
   \<and> time_first (snd (update ev d)) \<le> time ev"
  by (simp add: update_def Let_def)

lemma update_other_first_last:
  "event ev \<noteq> EV_RECV_DATA \<Longrightarrow>
   time_first (snd (update ev d)) = time_first d \<and> time_last (snd (update ev d)) = time_last d"
  by (simp add: update_def Let_def)

lemma updates_first_le_last:
  "time_first d \<le> time_last d \<Longrightarrow> sorted (recv_times evs) \<Longrightarrow>
   (\<forall>t \<in> set (recv_times evs). time_first d \<le> t) \<Longrightarrow>
   time_first (updates evs d) \<le> time_last (updates evs d)"
proof (induction evs arbitrary: d)
  case Nil
  then show ?case by simp
next
  case (Cons ev evs)
  show ?case
  proof (cases "event ev = EV_RECV_DATA")
    case True
    with Cons.prems have le: "time_first d \<le> time ev" by simp
    note u = update_first_le_last [OF True le]
    from Cons.prems True have s: "sorted (recv_times evs)"
      and a: "\<forall>t \<in> set (recv_times evs). time ev \<le> t" by simp_all
    have "\<forall>t \<in> set (recv_times evs). time_first (snd (update ev d)) \<le> t"
      using a u by auto
    with Cons.IH [of "snd (update ev d)"] u s show ?thesis by simp
  next
    case False
    note u = update_other_first_last [OF False, of d]
    from Cons.prems False u Cons.IH [of "snd (update ev d)"] show ?thesis by simp
  qed
qed

text \<open>
  C7, as the code has it. \<open>time_first \<le> time_last\<close> is kept by a sequence of updates
  when the timestamps of its \<open>EV_RECV_DATA\<close> events do not decrease and none is below
  the \<open>time_first\<close> of the domain; in particular from a fresh domain, where both are 0.
\<close>

theorem time_first_le_time_last_monotone:
  "time_first d \<le> time_last d \<Longrightarrow> sorted (recv_times evs) \<Longrightarrow>
   (\<forall>t \<in> set (recv_times evs). time_first d \<le> t) \<Longrightarrow>
   time_first (updates evs d) \<le> time_last (updates evs d)"
  by (rule updates_first_le_last)

theorem time_first_le_time_last_monotone_witness:
  "time_first example_domain \<le> time_last example_domain
   \<and> sorted (recv_times [example_event EV_RECV_DATA 1477831000 37,
        example_event EV_SEND_REQUEST 1477831001 2500, example_event EV_RECV_DATA 1477831060 41])
   \<and> time_first (updates [example_event EV_RECV_DATA 1477831000 37,
        example_event EV_SEND_REQUEST 1477831001 2500, example_event EV_RECV_DATA 1477831060 41]
        example_domain)
      \<le> time_last (updates [example_event EV_RECV_DATA 1477831000 37,
        example_event EV_SEND_REQUEST 1477831001 2500, example_event EV_RECV_DATA 1477831060 41]
        example_domain)"
proof -
  have z: "time_first example_domain = 0" "time_last example_domain = 0"
    by (simp_all add: example_domain_def Domain_ctor_def double_to_ulong_def)
  have r: "recv_times [example_event EV_RECV_DATA 1477831000 37,
        example_event EV_SEND_REQUEST 1477831001 2500, example_event EV_RECV_DATA 1477831060 41]
      = [1477831000, 1477831060]"
    by (simp add: example_event_def)
  have h1: "time_first example_domain \<le> time_last example_domain" using z by simp
  have h2: "sorted (recv_times [example_event EV_RECV_DATA 1477831000 37,
        example_event EV_SEND_REQUEST 1477831001 2500, example_event EV_RECV_DATA 1477831060 41])"
    unfolding r by simp
  have h3: "\<forall>t \<in> set (recv_times [example_event EV_RECV_DATA 1477831000 37,
        example_event EV_SEND_REQUEST 1477831001 2500, example_event EV_RECV_DATA 1477831060 41]).
        time_first example_domain \<le> t"
    unfolding r z by simp
  from h1 h2 time_first_le_time_last_monotone [OF h1 h2 h3] show ?thesis by blast
qed

text \<open>
  Two answers whose timestamps decrease: the count is 2 and \<open>time_first\<close> is above
  \<open>time_last\<close>.
\<close>

theorem time_first_above_time_last:
  "query_count (updates [example_event EV_RECV_DATA 1477831060 41, example_event EV_RECV_DATA 1477831000 37]
      example_domain) = 2
   \<and> time_first (updates [example_event EV_RECV_DATA 1477831060 41, example_event EV_RECV_DATA 1477831000 37]
      example_domain) = 1477831060
   \<and> time_last (updates [example_event EV_RECV_DATA 1477831060 41, example_event EV_RECV_DATA 1477831000 37]
      example_domain) = 1477831000
   \<and> \<not> (time_first (updates [example_event EV_RECV_DATA 1477831060 41, example_event EV_RECV_DATA 1477831000 37]
      example_domain)
      \<le> time_last (updates [example_event EV_RECV_DATA 1477831060 41, example_event EV_RECV_DATA 1477831000 37]
      example_domain))"
  by (simp add: update_def example_event_def example_domain_def Domain_ctor_def
      double_to_ulong_def Let_def)

section \<open>Probe targets\<close>

lemma getRandomTarget_PRNG_only:
  "PRNG d = PRNG d' \<Longrightarrow>
   fst (getRandomTarget L d) = fst (getRandomTarget L d')
   \<and> PRNG (snd (getRandomTarget L d)) = PRNG (snd (getRandomTarget L d'))"
  by (simp add: getRandomTarget_def split: prod.splits)

lemma targets_PRNG_only:
  "PRNG d = PRNG d' \<Longrightarrow> targets L n d = targets L n d'"
proof (induction n arbitrary: d d')
  case 0
  show ?case by simp
next
  case (Suc n)
  note g = getRandomTarget_PRNG_only [OF Suc.prems, of L]
  obtain str e where a: "getRandomTarget L d = (str, e)" by (cases "getRandomTarget L d") auto
  obtain str' e' where b: "getRandomTarget L d' = (str', e')" by (cases "getRandomTarget L d'") auto
  from g a b have "str = str'" "PRNG e = PRNG e'" by simp_all
  with Suc.IH [of e e'] a b show ?case by simp
qed

lemma of_char_zero_iff: "of_char p = (0::nat) \<longleftrightarrow> p = CHR 0x00"
proof -
  have "of_char (CHR 0x00) = (0::nat)" by simp
  then have "of_char p = (0::nat) \<longleftrightarrow> of_char p = (of_char (CHR 0x00) :: nat)" by simp
  then show ?thesis by (simp only: of_char_eq_iff)
qed

lemma name_hash_fold:
  "CHR 0x00 \<notin> set nm \<Longrightarrow>
   name_hash nm h = foldl (\<lambda>hash p. hash XOR word_of_nat (of_char p)) h nm"
proof (induction nm arbitrary: h)
  case Nil
  show ?case by simp
next
  case (Cons p ps)
  from Cons.prems have "p \<noteq> CHR 0x00" by auto
  then have "of_char p \<noteq> (0::nat)" by (simp only: of_char_zero_iff not_False_eq_True)
  with Cons show ?case by simp
qed

lemma name_hash_prefix:
  "name_hash nm h =
     foldl (\<lambda>hash p. hash XOR word_of_nat (of_char p)) h (takeWhile (\<lambda>p. p \<noteq> CHR 0x00) nm)"
  by (induction nm arbitrary: h) (simp_all add: of_char_zero_iff)

text \<open>
  C9. Two domains constructed with the same name, whatever the other arguments, give the
  same targets over any number of calls of \<open>getRandomTarget\<close>. The engine is seeded in
  the constructor with the 8-bit XOR of the bytes of the name (of those before a zero
  byte, which is all of them for a name without one), and \<open>update\<close> never touches it.
\<close>

theorem same_name_same_targets:
  "targets L n (Domain_ctor L nm rk avg stddev cnt tfirst tlast)
     = targets L n (Domain_ctor L nm rk' avg' stddev' cnt' tfirst' tlast')
   \<and> PRNG (Domain_ctor L nm rk avg stddev cnt tfirst tlast)
       = seed L (foldl (\<lambda>hash p. hash XOR word_of_nat (of_char p)) 0
                  (takeWhile (\<lambda>p. p \<noteq> CHR 0x00) nm))
   \<and> (CHR 0x00 \<notin> set nm \<longrightarrow>
        PRNG (Domain_ctor L nm rk avg stddev cnt tfirst tlast)
          = seed L (foldl (\<lambda>hash p. hash XOR word_of_nat (of_char p)) 0 nm))
   \<and> PRNG (snd (update ev d)) = PRNG d"
proof -
  have p: "PRNG (Domain_ctor L nm rk avg stddev cnt tfirst tlast) = seed L (name_hash nm 0)"
    for rk avg stddev cnt tfirst tlast
    by (simp add: Domain_ctor_def)
  have 1: "targets L n (Domain_ctor L nm rk avg stddev cnt tfirst tlast)
     = targets L n (Domain_ctor L nm rk' avg' stddev' cnt' tfirst' tlast')"
    by (rule targets_PRNG_only) (simp only: p)
  have 2: "PRNG (Domain_ctor L nm rk avg stddev cnt tfirst tlast)
       = seed L (foldl (\<lambda>hash p. hash XOR word_of_nat (of_char p)) 0
                  (takeWhile (\<lambda>p. p \<noteq> CHR 0x00) nm))"
    by (simp only: p name_hash_prefix)
  have 3: "CHR 0x00 \<notin> set nm \<longrightarrow>
        PRNG (Domain_ctor L nm rk avg stddev cnt tfirst tlast)
          = seed L (foldl (\<lambda>hash p. hash XOR word_of_nat (of_char p)) 0 nm)"
    by (simp add: p name_hash_fold)
  have 4: "PRNG (snd (update ev d)) = PRNG d"
    by (simp add: update_def Let_def)
  from 1 2 3 4 show ?thesis by blast
qed

theorem same_name_same_targets_witness:
  "CHR 0x00 \<notin> set ''example.com''
   \<and> targets example_stdlib 3 (Domain_ctor example_stdlib ''example.com'' 0 0 0 0 0 0)
      = targets example_stdlib 3 (Domain_ctor example_stdlib ''example.com'' 7 12.5 3 4 1477831000 1477831060)
   \<and> PRNG (Domain_ctor example_stdlib ''example.com'' 0 0 0 0 0 0) = 39"
proof -
  have h: "CHR 0x00 \<notin> set ''example.com''" by simp
  note t = same_name_same_targets [of example_stdlib 3 "''example.com''" 0 0 0 0 0 0
      7 "12.5" 3 4 1477831000 1477831060]
  have s: "seed example_stdlib (39 :: 8 word) = 39" by (simp add: example_stdlib_def)
  have f: "foldl (\<lambda>hash p. hash XOR word_of_nat (of_char p)) (0 :: 8 word) ''example.com'' = 39"
    by simp
  have "PRNG (Domain_ctor example_stdlib ''example.com'' 0 0 0 0 0 0) = 39"
    using t [THEN conjunct2, THEN conjunct2, THEN conjunct1] h f s by simp
  with h t [THEN conjunct1] show ?thesis by blast
qed

section \<open>The timer signal\<close>









section \<open>Running mean and standard deviation in exact arithmetic\<close>

lemma sum_sq_dev:
  "sum_list (map (\<lambda>x. (x - m)\<^sup>2) ds)
     = sum_list (map (\<lambda>x. x * x) ds) - 2 * m * sum_list ds + real (length ds) * m\<^sup>2"
  by (induction ds) (simp_all add: power2_eq_square algebra_simps)

lemma var_identity:
  assumes "ds \<noteq> []"
  shows "sum_list (map (\<lambda>x. (x - mean ds)\<^sup>2) ds) / real (length ds)
     = sum_list (map (\<lambda>x. x * x) ds) / real (length ds) - (mean ds)\<^sup>2"
proof -
  let ?n = "real (length ds)"
  have n: "?n \<noteq> 0" using assms by simp
  have s: "sum_list ds = mean ds * ?n" using n by (simp add: mean_def)
  have "sum_list (map (\<lambda>x. (x - mean ds)\<^sup>2) ds)
      = sum_list (map (\<lambda>x. x * x) ds) - ?n * (mean ds)\<^sup>2"
    unfolding sum_sq_dev [of "mean ds" ds] s by (simp add: power2_eq_square algebra_simps)
  then show ?thesis using n by (simp add: field_simps)
qed

lemma var_nonneg:
  assumes "ds \<noteq> []"
  shows "0 \<le> sum_list (map (\<lambda>x. x * x) ds) / real (length ds) - (mean ds)\<^sup>2"
proof -
  have "0 \<le> sum_list (map (\<lambda>x. (x - mean ds)\<^sup>2) ds)"
    by (rule sum_list_nonneg) auto
  then have "0 \<le> sum_list (map (\<lambda>x. (x - mean ds)\<^sup>2) ds) / real (length ds)"
    by simp
  then show ?thesis using var_identity [OF assms] by simp
qed

lemma update_recv:
  "event ev = EV_RECV_DATA \<Longrightarrow>
   query_count (snd (update ev d)) = query_count d + 1
   \<and> query_time_avg (snd (update ev d))
      = (query_time_avg d * real (unat (query_count d)) + duration ev)
        / real (unat (query_count d + 1))
   \<and> query_time_stddev (snd (update ev d))
      = sqrt (((query_time_avg d * query_time_avg d + query_time_stddev d * query_time_stddev d)
                * real (unat (query_count d)) + duration ev * duration ev)
              / real (unat (query_count d + 1))
              - (query_time_avg d * real (unat (query_count d)) + duration ev)
                / real (unat (query_count d + 1))
                * ((query_time_avg d * real (unat (query_count d)) + duration ev)
                / real (unat (query_count d + 1))))"
  by (simp add: update_def Let_def)

lemma unat_count:
  assumes "Suc n < 2 ^ 64"
  shows "unat (word_of_nat n :: 64 word) = n" and "unat (word_of_nat n + 1 :: 64 word) = Suc n"
proof -
  show "unat (word_of_nat n :: 64 word) = n" using assms by (simp add: unat_of_nat)
  have "unat (word_of_nat (Suc n) :: 64 word) = Suc n"
    using assms by (simp only: unat_of_nat) simp
  then show "unat (word_of_nat n + 1 :: 64 word) = Suc n" by (simp add: add.commute)
qed


lemma update_recv_step:
  assumes r: "event ev = EV_RECV_DATA"
    and c: "query_count d = word_of_nat (length ds)"
    and l: "Suc (length ds) < 2 ^ 64"
    and i: "ds \<noteq> [] \<Longrightarrow> query_time_avg d = mean ds \<and>
      query_time_stddev d = sqrt (sum_list (map (\<lambda>x. x * x) ds) / real (length ds) - (mean ds)\<^sup>2)"
  shows "query_count (snd (update ev d)) = word_of_nat (length (ds @ [duration ev]))"
    and "query_time_avg (snd (update ev d)) = mean (ds @ [duration ev])"
    and "query_time_stddev (snd (update ev d))
      = sqrt (sum_list (map (\<lambda>x. x * x) (ds @ [duration ev])) / real (length (ds @ [duration ev]))
              - (mean (ds @ [duration ev]))\<^sup>2)"
proof -
  let ?n = "real (length ds)"
  let ?x = "duration ev"
  have A: "query_time_avg d * ?n = sum_list ds"
  proof (cases "ds = []")
    case True
    then show ?thesis by simp
  next
    case False
    with i show ?thesis by (simp add: mean_def)
  qed
  have B: "(query_time_avg d * query_time_avg d + query_time_stddev d * query_time_stddev d) * ?n
      = sum_list (map (\<lambda>x. x * x) ds)"
  proof (cases "ds = []")
    case True
    then show ?thesis by simp
  next
    case False
    let ?v = "sum_list (map (\<lambda>x. x * x) ds) / ?n - (mean ds)\<^sup>2"
    have v: "0 \<le> ?v" by (rule var_nonneg [OF False])
    have "query_time_stddev d * query_time_stddev d = ?v"
      using i [OF False] v by simp
    moreover have "query_time_avg d * query_time_avg d = (mean ds)\<^sup>2"
      using i [OF False] by (simp add: power2_eq_square)
    ultimately have "query_time_avg d * query_time_avg d
        + query_time_stddev d * query_time_stddev d = sum_list (map (\<lambda>x. x * x) ds) / ?n"
      by simp
    then show ?thesis using False by simp
  qed
  note u = update_recv [OF r, of d]
  have k: "unat (query_count d) = length ds" "unat (query_count d + 1) = Suc (length ds)"
    using unat_count [OF l] by (simp_all only: c)
  show "query_count (snd (update ev d)) = word_of_nat (length (ds @ [duration ev]))"
    using u c by (simp add: add.commute)
  have m: "mean (ds @ [?x]) = (sum_list ds + ?x) / real (Suc (length ds))"
    by (simp add: mean_def)
  show "query_time_avg (snd (update ev d)) = mean (ds @ [duration ev])"
    unfolding m u [THEN conjunct2, THEN conjunct1] k A ..
  have q: "sum_list (map (\<lambda>x. x * x) (ds @ [?x])) / real (length (ds @ [?x]))
      - (mean (ds @ [?x]))\<^sup>2
    = (sum_list (map (\<lambda>x. x * x) ds) + ?x * ?x) / real (Suc (length ds))
      - (sum_list ds + ?x) / real (Suc (length ds)) * ((sum_list ds + ?x) / real (Suc (length ds)))"
    unfolding m by (simp add: power2_eq_square)
  show "query_time_stddev (snd (update ev d))
      = sqrt (sum_list (map (\<lambda>x. x * x) (ds @ [duration ev])) / real (length (ds @ [duration ev]))
              - (mean (ds @ [duration ev]))\<^sup>2)"
    unfolding q u [THEN conjunct2, THEN conjunct2] k A B ..
qed

lemma updates_stats:
  assumes "\<forall>ev \<in> set evs. event ev = EV_RECV_DATA"
    and "query_count d = word_of_nat (length ds)"
    and "length ds + length evs < 2 ^ 64"
    and "ds \<noteq> [] \<Longrightarrow> query_time_avg d = mean ds \<and>
      query_time_stddev d = sqrt (sum_list (map (\<lambda>x. x * x) ds) / real (length ds) - (mean ds)\<^sup>2)"
  shows "query_count (updates evs d) = word_of_nat (length (ds @ map duration evs))
    \<and> (ds @ map duration evs \<noteq> [] \<longrightarrow>
         query_time_avg (updates evs d) = mean (ds @ map duration evs)
         \<and> query_time_stddev (updates evs d)
            = sqrt (sum_list (map (\<lambda>x. x * x) (ds @ map duration evs))
                      / real (length (ds @ map duration evs))
                    - (mean (ds @ map duration evs))\<^sup>2))"
  using assms
proof (induction evs arbitrary: d ds)
  case Nil
  then show ?case by simp
next
  case (Cons ev evs)
  from Cons.prems(1) have r: "event ev = EV_RECV_DATA" and rs: "\<forall>e \<in> set evs. event e = EV_RECV_DATA"
    by simp_all
  from Cons.prems(3) have l: "Suc (length ds) < 2 ^ 64" by simp
  note st = update_recv_step [OF r Cons.prems(2) l Cons.prems(4)]
  let ?d = "snd (update ev d)"
  let ?ds = "ds @ [duration ev]"
  have l': "length ?ds + length evs < 2 ^ 64" using Cons.prems(3) by simp
  have i': "?ds \<noteq> [] \<Longrightarrow> query_time_avg ?d = mean ?ds \<and>
      query_time_stddev ?d = sqrt (sum_list (map (\<lambda>x. x * x) ?ds) / real (length ?ds) - (mean ?ds)\<^sup>2)"
    using st(2,3) by simp
  note ih = Cons.IH [OF rs st(1) l' i']
  have e: "?ds @ map duration evs = ds @ map duration (ev # evs)" by simp
  have u: "updates (ev # evs) d = updates evs ?d" by simp
  show ?case unfolding u e [symmetric] by (rule ih)
qed

text \<open>
  In exact arithmetic the incremental formulas of \<open>update\<close> are right: after each of
  the first \<open>k\<close> answers folded into a fresh domain the average is the arithmetic mean of
  the durations so far and the deviation their population standard deviation. So what
  goes wrong in binary64 (next section) comes from the rounding and the missing clamp.
\<close>

lemma exact_running_mean_stddev:
  "\<forall>ev \<in> set evs. event ev = EV_RECV_DATA \<Longrightarrow> length evs < 2 ^ 64 \<Longrightarrow>
   0 < k \<Longrightarrow> k \<le> length evs \<Longrightarrow>
   query_time_avg (updates (take k evs) (Domain_ctor L nm rk 0 0 0 0 0))
     = mean (map duration (take k evs))
   \<and> query_time_stddev (updates (take k evs) (Domain_ctor L nm rk 0 0 0 0 0))
     = population_stddev (map duration (take k evs))
   \<and> query_count (updates (take k evs) (Domain_ctor L nm rk 0 0 0 0 0)) = word_of_nat k"
proof -
  assume a: "\<forall>ev \<in> set evs. event ev = EV_RECV_DATA" and b: "length evs < 2 ^ 64"
    and c: "0 < k" and d: "k \<le> length evs"
  let ?evs = "take k evs"
  let ?d0 = "Domain_ctor L nm rk 0 0 0 0 0"
  have 1: "\<forall>ev \<in> set ?evs. event ev = EV_RECV_DATA"
    using a by (meson in_set_takeD)
  have 2: "query_count ?d0 = word_of_nat (length ([] :: real list))"
    by (simp add: Domain_ctor_def double_to_ulong_def)
  have 3: "length ([] :: real list) + length ?evs < 2 ^ 64" using b by simp
  have 4: "([] :: real list) \<noteq> [] \<Longrightarrow> query_time_avg ?d0 = mean [] \<and>
      query_time_stddev ?d0 = sqrt (sum_list (map (\<lambda>x. x * x) []) / real (length ([] :: real list)) - (mean [])\<^sup>2)"
    by simp
  note t = updates_stats [OF 1 2 3 4]
  have ne: "map duration ?evs \<noteq> []" using c d by auto
  have len: "length ?evs = k" using d by simp
  have v: "population_stddev (map duration ?evs)
      = sqrt (sum_list (map (\<lambda>x. x * x) (map duration ?evs)) / real (length (map duration ?evs))
              - (mean (map duration ?evs))\<^sup>2)"
    unfolding population_stddev_def var_identity [OF ne] ..
  from t ne len v show ?thesis by simp
qed

section \<open>The statistics in binary64\<close>

lemma bitlen_nonneg: "0 \<le> bitlen n"
proof (induction n rule: bitlen.induct)
  case (1 n)
  show ?case
  proof (cases "n \<le> 0")
    case True
    then show ?thesis by (subst bitlen.simps) simp
  next
    case False
    with "1.IH" have "0 \<le> bitlen (n div 2)" by simp
    with False show ?thesis by (subst bitlen.simps) simp
  qed
qed

lemma bitlen_step: "0 < n \<Longrightarrow> (2::int) ^ nat (bitlen n) = 2 * 2 ^ nat (bitlen (n div 2))"
proof -
  assume "0 < n"
  then have e: "bitlen n = 1 + bitlen (n div 2)"
    by (subst bitlen.simps) simp
  have "nat (bitlen n) = Suc (nat (bitlen (n div 2)))"
    unfolding e using bitlen_nonneg [of "n div 2"] by simp
  then show ?thesis by simp
qed

lemma bitlen_bound: "0 < n \<Longrightarrow> n < 2 ^ nat (bitlen n)"
proof (induction n rule: bitlen.induct)
  case (1 n)
  note p = bitlen_step [OF "1.prems"]
  show ?case
  proof (cases "n div 2 \<le> 0")
    case True
    with "1.prems" have "n = 1" by linarith
    moreover have "(1::int) \<le> 2 ^ nat (bitlen (n div 2))" by simp
    ultimately show ?thesis unfolding p by linarith
  next
    case False
    with "1.IH" "1.prems" have "n div 2 < 2 ^ nat (bitlen (n div 2))" by simp
    then show ?thesis unfolding p by linarith
  qed
qed

lemma bitlen_lower: "0 < n \<Longrightarrow> 2 ^ nat (bitlen n) \<le> 2 * n"
proof (induction n rule: bitlen.induct)
  case (1 n)
  note p = bitlen_step [OF "1.prems"]
  show ?case
  proof (cases "n div 2 \<le> 0")
    case True
    with "1.prems" have n: "n = 1" by linarith
    have "bitlen (n div 2) = 0" using True by (subst bitlen.simps) simp
    then show ?thesis unfolding p using n by simp
  next
    case False
    with "1.IH" "1.prems" have "2 ^ nat (bitlen (n div 2)) \<le> 2 * (n div 2)" by simp
    moreover have "2 * (n div 2) \<le> n" by simp
    ultimately show ?thesis unfolding p by linarith
  qed
qed

lemma pow2_powi: "pow2 e = 2 powi e"
  by (simp add: pow2_def power_int_def inverse_eq_divide power_one_over)

text \<open>\<open>floor_log2\<close> is the binary exponent of a positive rational.\<close>

lemma floor_log2_correct:
  assumes "0 < x"
  shows "pow2 (floor_log2 x) \<le> x \<and> x < pow2 (floor_log2 x + 1)"
proof -
  obtain p q where pq: "quotient_of x = (p, q)" by (cases "quotient_of x") auto
  have q: "0 < q" using quotient_of_denom_pos [OF pq] .
  have x: "x = of_int p / of_int q" using quotient_of_div [OF pq] .
  have p: "0 < p" using assms q unfolding x by (simp add: zero_less_divide_iff)
  let ?a = "bitlen p" and ?b = "bitlen q"
  have a: "0 \<le> ?a" "0 \<le> ?b" by (rule bitlen_nonneg)+
  have pu: "(of_int p :: rat) < 2 powi ?a"
  proof -
    have "(of_int p :: rat) < of_int (2 ^ nat ?a)"
      using bitlen_bound [OF p] by (simp only: of_int_less_iff)
    then show ?thesis using a by (simp add: power_int_def)
  qed
  have pl: "(2 powi ?a :: rat) \<le> 2 * of_int p"
  proof -
    have "(of_int (2 ^ nat ?a) :: rat) \<le> of_int (2 * p)"
      using bitlen_lower [OF p] by (simp only: of_int_le_iff)
    then show ?thesis using a by (simp add: power_int_def)
  qed
  have qu: "(of_int q :: rat) < 2 powi ?b"
  proof -
    have "(of_int q :: rat) < of_int (2 ^ nat ?b)"
      using bitlen_bound [OF q] by (simp only: of_int_less_iff)
    then show ?thesis using a by (simp add: power_int_def)
  qed
  have ql: "(2 powi ?b :: rat) \<le> 2 * of_int q"
  proof -
    have "(of_int (2 ^ nat ?b) :: rat) \<le> of_int (2 * q)"
      using bitlen_lower [OF q] by (simp only: of_int_le_iff)
    then show ?thesis using a by (simp add: power_int_def)
  qed
  have Q: "(0::rat) < of_int q" using q by simp
  have B: "(0::rat) < 2 powi ?b" by simp
  have d1: "(2::rat) powi (?a - ?b + 1) = 2 * 2 powi ?a / 2 powi ?b"
    by (simp add: power_int_diff power_int_add)
  have d2: "(2::rat) powi (?a - ?b - 1) = 2 powi ?a / (2 * 2 powi ?b)"
    by (simp add: power_int_diff)
  have up: "x < 2 powi (?a - ?b + 1)"
  proof -
    have "(of_int p :: rat) * 2 powi ?b < (2 * 2 powi ?a) * of_int q"
    proof -
      have "(of_int p :: rat) * 2 powi ?b < 2 powi ?a * (2 powi ?b :: rat)"
        using pu B by simp
      also have "\<dots> \<le> 2 powi ?a * (2 * of_int q)"
        using ql by (simp del: power_int_mult_distrib)
      finally show ?thesis by (simp add: mult_ac)
    qed
    then show ?thesis unfolding x d1 using Q B by (simp add: field_simps)
  qed
  have lo: "2 powi (?a - ?b - 1) \<le> x"
  proof -
    have "(2 powi ?a :: rat) * of_int q \<le> (2 * of_int p) * (of_int q :: rat)"
      using pl Q by simp
    also have "\<dots> \<le> (2 * of_int p) * 2 powi ?b"
      using qu p by simp
    finally have "(2 powi ?a :: rat) * of_int q \<le> of_int p * (2 * 2 powi ?b :: rat)"
      by (simp add: mult_ac)
    then show ?thesis unfolding x d2 using Q B by (simp add: field_simps)
  qed
  show ?thesis
  proof (cases "pow2 (?a - ?b) \<le> x")
    case True
    then have "floor_log2 x = ?a - ?b" by (simp add: floor_log2_def pq)
    with True up show ?thesis by (simp add: pow2_powi)
  next
    case False
    then have f: "floor_log2 x = ?a - ?b - 1" by (simp add: floor_log2_def pq)
    from False have "x < 2 powi (?a - ?b)" by (simp add: pow2_powi)
    with lo show ?thesis unfolding f by (simp add: pow2_powi)
  qed
qed

text \<open>\<open>round_half_even\<close> gives a nearest integer, the even one at a tie.\<close>

lemma round_half_even_nearest:
  "\<bar>x - of_int (round_half_even x)\<bar> \<le> 1 / 2"
  "x - of_int \<lfloor>x\<rfloor> = 1 / 2 \<Longrightarrow> even (round_half_even x)"
proof -
  have "of_int \<lfloor>x\<rfloor> \<le> x" "x < of_int \<lfloor>x\<rfloor> + 1" by linarith+
  then show "\<bar>x - of_int (round_half_even x)\<bar> \<le> 1 / 2"
    by (auto simp: round_half_even_def Let_def)
  show "x - of_int \<lfloor>x\<rfloor> = 1 / 2 \<Longrightarrow> even (round_half_even x)"
    by (simp add: round_half_even_def Let_def)
qed

text \<open>\<open>isqrt\<close> is the integer square root.\<close>

lemma isqrt_from_correct:
  "r * r \<le> n \<Longrightarrow> n < (r + 2 ^ Suc k) * (r + 2 ^ Suc k) \<Longrightarrow>
   isqrt_from k n r * isqrt_from k n r \<le> n
   \<and> n < (isqrt_from k n r + 1) * (isqrt_from k n r + 1)"
proof (induction k arbitrary: r)
  case 0
  then show ?case by (auto simp: algebra_simps)
next
  case (Suc k)
  let ?r = "if (r + 2 ^ Suc k) * (r + 2 ^ Suc k) \<le> n then r + 2 ^ Suc k else r"
  have a: "?r * ?r \<le> n" using Suc.prems(1) by simp
  have b: "n < (?r + 2 ^ Suc k) * (?r + 2 ^ Suc k)"
  proof (cases "(r + 2 ^ Suc k) * (r + 2 ^ Suc k) \<le> n")
    case True
    have "r + 2 ^ Suc k + 2 ^ Suc k = r + 2 ^ Suc (Suc k)" by simp
    with True Suc.prems(2) show ?thesis by (simp only: if_True)
  next
    case False
    then show ?thesis by simp
  qed
  from Suc.IH [OF a b] show ?case by simp
qed

lemma isqrt_correct:
  assumes "0 \<le> n"
  shows "isqrt n * isqrt n \<le> n \<and> n < (isqrt n + 1) * (isqrt n + 1)"
proof (cases "n = 0")
  case True
  then show ?thesis by (simp add: isqrt_def)
next
  case False
  with assms have p: "0 < n" by simp
  let ?k = "nat (bitlen n)"
  have "n < 2 ^ ?k" by (rule bitlen_bound [OF p])
  also have "(2::int) ^ ?k \<le> 2 ^ Suc ?k" by simp
  also have "(2::int) ^ Suc ?k \<le> 2 ^ Suc ?k * 2 ^ Suc ?k"
  proof -
    have o: "(1::int) \<le> 2 ^ Suc ?k" by (rule one_le_power) simp
    have "(2::int) ^ Suc ?k * 1 \<le> 2 ^ Suc ?k * 2 ^ Suc ?k"
      by (rule mult_left_mono [OF o]) simp
    then show ?thesis by simp
  qed
  finally have b: "n < (0 + 2 ^ Suc ?k) * (0 + 2 ^ Suc ?k)" by simp
  have a: "(0::int) * 0 \<le> n" using assms by simp
  from isqrt_from_correct [OF a b] p show ?thesis by (simp add: isqrt_def)
qed

text \<open>Some values of the rounding and of the square root.\<close>

lemma round_b64_examples:
  "round_b64 (1 / 10) = tenth"
  "round_b64 (2 ^ 53 + 1) = Fin (2 ^ 53)"
  "round_b64 (2 ^ 53 + 3) = Fin (2 ^ 53 + 4)"
  "sqrt64 (Fin 2) = Fin (6369051672525773 / 4503599627370496)"
  "sqrt64 (Fin 25) = Fin 5"
  by code_simp+

text \<open>
  The operations that three updates with \<open>tenth\<close> perform, each evaluated on its own.
\<close>

lemma to_double_steps:
  "to_double 0 = Fin 0" "to_double 1 = Fin 1" "to_double 2 = Fin 2" "to_double 3 = Fin 3"
  unfolding to_double_def by (simp, code_simp)+

lemma count_steps:
  "(0 :: 64 word) + 1 = 1" "(1 :: 64 word) + 1 = 2" "(2 :: 64 word) + 1 = 3"
  by simp_all

lemma update64_steps:
  "mul64 (Fin 0) (Fin 0) = Fin 0"
  "add64 (Fin 0) (Fin (3602879701896397 / 36028797018963968)) = Fin (3602879701896397 / 36028797018963968)"
  "add64 (Fin 0) (Fin 0) = Fin 0"
  "mul64 (Fin (3602879701896397 / 36028797018963968)) (Fin (3602879701896397 / 36028797018963968)) = Fin (1441151880758559 / 144115188075855872)"
  "add64 (Fin 0) (Fin (1441151880758559 / 144115188075855872)) = Fin (1441151880758559 / 144115188075855872)"
  "div64 (Fin (3602879701896397 / 36028797018963968)) (Fin 1) = Fin (3602879701896397 / 36028797018963968)"
  "div64 (Fin (1441151880758559 / 144115188075855872)) (Fin 1) = Fin (1441151880758559 / 144115188075855872)"
  "sub64 (Fin (1441151880758559 / 144115188075855872)) (Fin (1441151880758559 / 144115188075855872)) = Fin 0"
  "sqrt64 (Fin 0) = Fin 0"
  "mul64 (Fin (3602879701896397 / 36028797018963968)) (Fin 1) = Fin (3602879701896397 / 36028797018963968)"
  "add64 (Fin (3602879701896397 / 36028797018963968)) (Fin (3602879701896397 / 36028797018963968)) = Fin (3602879701896397 / 18014398509481984)"
  "add64 (Fin (1441151880758559 / 144115188075855872)) (Fin 0) = Fin (1441151880758559 / 144115188075855872)"
  "mul64 (Fin (1441151880758559 / 144115188075855872)) (Fin 1) = Fin (1441151880758559 / 144115188075855872)"
  "add64 (Fin (1441151880758559 / 144115188075855872)) (Fin (1441151880758559 / 144115188075855872)) = Fin (1441151880758559 / 72057594037927936)"
  "div64 (Fin (3602879701896397 / 18014398509481984)) (Fin 2) = Fin (3602879701896397 / 36028797018963968)"
  "div64 (Fin (1441151880758559 / 72057594037927936)) (Fin 2) = Fin (1441151880758559 / 144115188075855872)"
  "mul64 (Fin (3602879701896397 / 36028797018963968)) (Fin 2) = Fin (3602879701896397 / 18014398509481984)"
  "add64 (Fin (3602879701896397 / 18014398509481984)) (Fin (3602879701896397 / 36028797018963968)) = Fin (1351079888211149 / 4503599627370496)"
  "mul64 (Fin (1441151880758559 / 144115188075855872)) (Fin 2) = Fin (1441151880758559 / 72057594037927936)"
  "add64 (Fin (1441151880758559 / 72057594037927936)) (Fin (1441151880758559 / 144115188075855872)) = Fin (4323455642275677 / 144115188075855872)"
  "div64 (Fin (1351079888211149 / 4503599627370496)) (Fin 3) = Fin (7205759403792795 / 72057594037927936)"
  "div64 (Fin (4323455642275677 / 144115188075855872)) (Fin 3) = Fin (1441151880758559 / 144115188075855872)"
  "mul64 (Fin (7205759403792795 / 72057594037927936)) (Fin (7205759403792795 / 72057594037927936)) = Fin (5764607523034237 / 576460752303423488)"
  "sub64 (Fin (1441151880758559 / 144115188075855872)) (Fin (5764607523034237 / 576460752303423488)) = Fin (- (1 / 576460752303423488))"
  by code_simp+

lemma sqrt64_negative: "x < 0 \<Longrightarrow> sqrt64 (Fin x) = NaN"
  by (simp add: sqrt64_def)

lemma nan_steps:
  "add64 a NaN = NaN" "mul64 NaN b = NaN" "add64 NaN b = NaN" "div64 NaN b = NaN"
  "sub64 NaN b = NaN" "sqrt64 NaN = NaN"
  by (cases a; simp add: sqrt64_def)+

lemma update64_nan_persists:
  "query_time_stddev64 s = NaN \<Longrightarrow> query_time_stddev64 (update64 d s) = NaN"
  by (simp add: update64_def update64_variance_def Let_def nan_steps)

lemma update64_first:
  "update64 tenth fresh64
     = \<lparr>query_time_avg64 = tenth, query_time_stddev64 = Fin 0, query_count64 = 1\<rparr>"
  by (simp only: update64_def update64_variance_def Let_def fresh64_def tenth_def
      stats64.simps to_double_steps count_steps update64_steps)

lemma update64_second:
  "update64 tenth \<lparr>query_time_avg64 = tenth, query_time_stddev64 = Fin 0, query_count64 = 1\<rparr>
     = \<lparr>query_time_avg64 = tenth, query_time_stddev64 = Fin 0, query_count64 = 2\<rparr>"
  by (simp only: update64_def update64_variance_def Let_def fresh64_def tenth_def
      stats64.simps to_double_steps count_steps update64_steps)

lemma update64_third_variance:
  "update64_variance tenth \<lparr>query_time_avg64 = tenth, query_time_stddev64 = Fin 0, query_count64 = 2\<rparr>
     = \<lparr>query_time_avg64 = Fin (7205759403792795 / 72057594037927936),
        query_time_stddev64 = Fin (- (1 / 576460752303423488)), query_count64 = 3\<rparr>"
  by (simp only: update64_def update64_variance_def Let_def fresh64_def tenth_def
      stats64.simps to_double_steps count_steps update64_steps)

lemma update64_third:
  "update64 tenth \<lparr>query_time_avg64 = tenth, query_time_stddev64 = Fin 0, query_count64 = 2\<rparr>
     = \<lparr>query_time_avg64 = Fin (7205759403792795 / 72057594037927936),
        query_time_stddev64 = NaN, query_count64 = 3\<rparr>"
  unfolding update64_def Let_def update64_third_variance by (simp add: sqrt64_negative)

lemma population_stddev_equal: "population_stddev [x, x, x] = 0"
  by (simp add: population_stddev_def mean_def)

text \<open>
  C1. In the arithmetic of the program the claim fails. Three answers of 0.1 ms each
  (the \<^verbatim>\<open>double\<close> nearest to one tenth), folded into a fresh domain: after the first
  and the second update the average is 0.1 and the deviation 0; at the third the average
  is 7205759403792795 / 2^56 (0.10000000000000002), line 161 leaves the variance
  - 1 / 2^59, and line 162 takes its square root with no clamp: \<open>query_time_stddev\<close> is
  NaN, and it stays NaN after every later update, whatever its duration. The population
  standard deviation of three equal durations is 0.
\<close>

theorem update64_equal_durations_nan:
  "update64 tenth fresh64
     = \<lparr>query_time_avg64 = tenth, query_time_stddev64 = Fin 0, query_count64 = 1\<rparr>
   \<and> update64 tenth (update64 tenth fresh64)
     = \<lparr>query_time_avg64 = tenth, query_time_stddev64 = Fin 0, query_count64 = 2\<rparr>
   \<and> update64_variance tenth (update64 tenth (update64 tenth fresh64))
     = \<lparr>query_time_avg64 = Fin (7205759403792795 / 72057594037927936),
        query_time_stddev64 = Fin (- (1 / 2 ^ 59)), query_count64 = 3\<rparr>
   \<and> update64 tenth (update64 tenth (update64 tenth fresh64))
     = \<lparr>query_time_avg64 = Fin (7205759403792795 / 72057594037927936),
        query_time_stddev64 = NaN, query_count64 = 3\<rparr>
   \<and> (\<forall>d. query_time_stddev64
          (update64 d (update64 tenth (update64 tenth (update64 tenth fresh64)))) = NaN)
   \<and> (\<forall>x. population_stddev [x, x, x] = 0)"
proof -
  have n: "query_time_stddev64 (update64 tenth (update64 tenth (update64 tenth fresh64))) = NaN"
    unfolding update64_first update64_second update64_third by simp
  have v: "Fin (- (1 / 576460752303423488)) = Fin (- (1 / 2 ^ 59))" by simp
  show ?thesis
    unfolding update64_first update64_second update64_third update64_third_variance v
    using update64_nan_persists [OF n] population_stddev_equal
    by (simp add: update64_first update64_second update64_third)
qed

end
